theory Spec2Isabelle
  imports Complex_Main
begin

section \<open>The evaluation driver of RSDiX-CLIP (eval\_clipcap.py)\<close>

text \<open>
  The driver is orchestration code around external libraries. Its own logic is modelled
  here function by function: \<open>export_metrics\<close>, \<open>eval_model\<close> and \<open>main\<close>.
  Everything it calls but does not define (the captioning model, the metric library,
  the dataset loader, float formatting) is a field of an environment record and is
  left uninterpreted in the general theorems. These external calls are taken to return;
  console output and the progress bar are not modelled.
\<close>

subsection \<open>Python values and errors\<close>

datatype py_error =
    NoModelNorImport        \<comment> \<open>line 89: captions\_import\_file and model\_pth both None\<close>
  | SplitsMismatch          \<comment> \<open>line 93\<close>
  | BadExportFile           \<comment> \<open>line 97\<close>
  | ExportEvalConflict      \<comment> \<open>line 100\<close>
  | IndexError
  | KeyError string
  | FileNotFoundError
  | NotADirectoryError
  | IsADirectoryError
  | FileExistsError
  | ValueError
  | JSONDecodeError

text \<open>A command-line list argument, which lines 104 to 111 replace by its only element.\<close>

datatype str_or_list = Str string | StrList "string list"

fun py_len :: "str_or_list \<Rightarrow> nat" where
  "py_len (Str s) = length s"
| "py_len (StrList xs) = length xs"

text \<open>\<open>xs[0]\<close> on a list argument that is known to have one element.\<close>

fun first_item :: "str_or_list \<Rightarrow> str_or_list" where
  "first_item (StrList (x # xs)) = Str x"
| "first_item (Str (c # cs)) = Str [c]"
| "first_item v = v"

text \<open>Indexing a Python list: a negative index counts from the end, out of range raises.\<close>

definition norm_index :: "nat \<Rightarrow> int \<Rightarrow> int" where
  "norm_index n i = (if i < 0 then i + int n else i)"

definition list_getitem :: "'a list \<Rightarrow> int \<Rightarrow> py_error + 'a" where
  "list_getitem xs i =
     (let j = norm_index (length xs) i
      in if 0 \<le> j \<and> j < int (length xs) then Inr (xs ! nat j) else Inl IndexError)"

definition list_setitem :: "'a list \<Rightarrow> int \<Rightarrow> 'a \<Rightarrow> py_error + 'a list" where
  "list_setitem xs i v =
     (let j = norm_index (length xs) i
      in if 0 \<le> j \<and> j < int (length xs) then Inr (xs[nat j := v]) else Inl IndexError)"

definition endswith :: "string \<Rightarrow> string \<Rightarrow> bool" where
  "endswith s suf = (length suf \<le> length s \<and> drop (length s - length suf) s = suf)"

text \<open>
  A dict keeps its keys in insertion order; storing under a key that is present keeps
  the key's position. The metrics accumulator is such a dict from metric name to float.
  Floats are carried as reals: the driver does no arithmetic on them, it only stores the
  literal 0.0, hands the values to the metric library and formats them.
\<close>

type_synonym metrics_dict = "(string \<times> real) list"

fun dict_set :: "('k \<times> 'v) list \<Rightarrow> 'k \<Rightarrow> 'v \<Rightarrow> ('k \<times> 'v) list" where
  "dict_set [] k v = [(k, v)]"
| "dict_set ((k', v') # d) k v =
     (if k' = k then (k', v) # d else (k', v') # dict_set d k v)"

text \<open>\<open>{metric: 0.0 for metric in args.metrics}\<close>\<close>

definition init_metrics :: "string list \<Rightarrow> metrics_dict" where
  "init_metrics ms = foldl (\<lambda>d m. dict_set d m 0) [] ms"

text \<open>
  The entries of the caption list that is exported and imported: a per-sample dict with
  the keys filename, preds and reference\_captions, or the dict that holds
  model\_basename.
\<close>

datatype caption_entry =
    CaptionRecord string "string list" "string list"
  | ModelBasename string

subsection \<open>The file system, the random generator and the loaded models\<close>

text \<open>
  A file is the sequence of what was written to it: characters, or a whole JSON
  document kept as the value \<open>json.dump\<close> was given.
\<close>

datatype fsym = Ch char | JsonDoc "caption_entry list"

definition text_of :: "string \<Rightarrow> fsym list" where
  "text_of s = map Ch s"

datatype node = Dir | File "fsym list"

datatype event = LoadCheckpoint string | LoadProcessor string

text \<open>
  The file system is a map from absolute paths, given as the list of their component
  names, to nodes; the root is the empty list and is always a directory. The process
  has a working directory. Symbolic links, permissions, special files and the limits on
  name lengths and on space are not modelled.
\<close>

record world =
  nodes :: "string list \<Rightarrow> node option"
  cwd :: "string list"
  rng :: nat
  events :: "event list"

definition node_at :: "world \<Rightarrow> string list \<Rightarrow> node option" where
  "node_at w k = (if k = [] then Some Dir else nodes w k)"

text \<open>The components of a path string, the empty ones between and after slashes included.\<close>

fun split_slash :: "string \<Rightarrow> string list" where
  "split_slash [] = [[]]"
| "split_slash (c # cs) =
     (if c = CHR ''/'' then [] # split_slash cs
      else (case split_slash cs of [] \<Rightarrow> [[c]] | x # xs \<Rightarrow> (c # x) # xs))"

definition strip_trailing :: "string list \<Rightarrow> string list" where
  "strip_trailing comps = rev (dropWhile (\<lambda>c. c = []) (rev comps))"

text \<open>
  Path resolution, one component at a time: the place reached so far must be a
  directory before the next component is read.
\<close>

definition step :: "string list \<Rightarrow> string \<Rightarrow> string list" where
  "step cur c =
     (if c = [] \<or> c = ''.'' then cur else if c = ''..'' then butlast cur else cur @ [c])"

fun walk :: "world \<Rightarrow> string list \<Rightarrow> string list \<Rightarrow> py_error + string list" where
  "walk w cur [] = Inr cur"
| "walk w cur (c # cs) =
     (case node_at w cur of
        None \<Rightarrow> Inl FileNotFoundError
      | Some (File _) \<Rightarrow> Inl NotADirectoryError
      | Some Dir \<Rightarrow> walk w (step cur c) cs)"

definition start_at :: "world \<Rightarrow> string \<Rightarrow> string list" where
  "start_at w p = (case p of [] \<Rightarrow> cwd w | c # _ \<Rightarrow> if c = CHR ''/'' then [] else cwd w)"

text \<open>
  What a path string names: an existing node, a name that is free in an existing
  directory, or nothing (the resolution fails). The flag tells whether the string ends
  in a slash. The empty string names nothing, and Python refuses a string that holds
  a NUL character with a ValueError.
\<close>

datatype lookup = Failed py_error | Missing "string list" bool | Found "string list" node bool

definition lookup :: "world \<Rightarrow> string \<Rightarrow> lookup" where
  "lookup w p =
     (if p = [] then Failed FileNotFoundError
      else if CHR 0x00 \<in> set p then Failed ValueError
      else let comps = split_slash p; names = strip_trailing comps; slash = (names \<noteq> comps)
           in if names = [] then Found [] Dir slash
              else (case walk w (start_at w p) (butlast names) of
                      Inl e \<Rightarrow> Failed e
                    | Inr k \<Rightarrow>
                        (case node_at w k of
                           None \<Rightarrow> Failed FileNotFoundError
                         | Some (File _) \<Rightarrow> Failed NotADirectoryError
                         | Some Dir \<Rightarrow>
                             if last names = ''.'' then Found k Dir slash
                             else if last names = ''..'' then Found (butlast k) Dir slash
                             else (case node_at w (k @ [last names]) of
                                     None \<Rightarrow> Missing (k @ [last names]) slash
                                   | Some n \<Rightarrow> Found (k @ [last names]) n slash))))"

text \<open>\<open>os.stat\<close>: the place and the node of an existing path.\<close>

definition stat :: "world \<Rightarrow> string \<Rightarrow> py_error + string list \<times> node" where
  "stat w p =
     (case lookup w p of
        Failed e \<Rightarrow> Inl e
      | Missing _ _ \<Rightarrow> Inl FileNotFoundError
      | Found k Dir _ \<Rightarrow> Inr (k, Dir)
      | Found k (File c) slash \<Rightarrow> if slash then Inl NotADirectoryError else Inr (k, File c))"

text \<open>\<open>os.path.exists\<close>: False when \<open>os.stat\<close> raises.\<close>

definition path_exists :: "world \<Rightarrow> string \<Rightarrow> bool" where
  "path_exists w p = (case stat w p of Inl _ \<Rightarrow> False | Inr _ \<Rightarrow> True)"

definition is_dir :: "world \<Rightarrow> string \<Rightarrow> bool" where
  "is_dir w p = (case stat w p of Inr (_, Dir) \<Rightarrow> True | _ \<Rightarrow> False)"

text \<open>\<open>os.mkdir\<close>\<close>

definition mkdir :: "world \<Rightarrow> string \<Rightarrow> (py_error + unit) \<times> world" where
  "mkdir w p =
     (case lookup w p of
        Failed e \<Rightarrow> (Inl e, w)
      | Found _ _ _ \<Rightarrow> (Inl FileExistsError, w)
      | Missing k _ \<Rightarrow> (Inr (), w\<lparr>nodes := (nodes w)(k \<mapsto> Dir)\<rparr>))"

text \<open>\<open>os.path.split\<close> (POSIX)\<close>

definition rstrip_slash :: "string \<Rightarrow> string" where
  "rstrip_slash s = rev (dropWhile (\<lambda>c. c = CHR ''/'') (rev s))"

definition path_split :: "string \<Rightarrow> string \<times> string" where
  "path_split p =
     (let tail = rev (takeWhile (\<lambda>c. c \<noteq> CHR ''/'') (rev p));
          head = take (length p - length tail) p
      in (if rstrip_slash head \<noteq> [] then rstrip_slash head else head, tail))"

text \<open>
  \<open>os.makedirs\<close> with its default arguments, as the library defines it: the head and
  the tail of the name (of its head, when the name ends in a slash); the head is made
  first when it does not exist, a FileExistsError of that call being ignored; then the
  name itself is made, unless the tail is ".".
\<close>

definition makedirs_split :: "string \<Rightarrow> string \<times> string" where
  "makedirs_split name =
     (if snd (path_split name) = [] then path_split (fst (path_split name))
      else path_split name)"

function makedirs :: "world \<Rightarrow> string \<Rightarrow> (py_error + unit) \<times> world" where
  "makedirs w name =
     (if fst (makedirs_split name) \<noteq> [] \<and> snd (makedirs_split name) \<noteq> [] \<and>
         \<not> path_exists w (fst (makedirs_split name))
      then (case makedirs w (fst (makedirs_split name)) of
              (Inl e, w1) \<Rightarrow>
                if e = FileExistsError
                then (if snd (makedirs_split name) = ''.'' then (Inr (), w1) else mkdir w1 name)
                else (Inl e, w1)
            | (Inr u, w1) \<Rightarrow>
                if snd (makedirs_split name) = ''.'' then (Inr (), w1) else mkdir w1 name)
      else mkdir w name)"
  by pat_completeness auto

termination
proof (relation "measure (\<lambda>(w, name). length name)")
  show "wf (measure (\<lambda>(w, name). length name))"
    by simp
next
  fix w :: world and name :: string
  assume "fst (makedirs_split name) \<noteq> [] \<and> snd (makedirs_split name) \<noteq> [] \<and>
    \<not> path_exists w (fst (makedirs_split name))"
  then have t: "snd (makedirs_split name) \<noteq> []"
    by simp
  have s: "length (fst (path_split p)) + length (snd (path_split p)) \<le> length p" for p
  proof -
    let ?t = "takeWhile (\<lambda>c. c \<noteq> CHR ''/'') (rev p)"
    let ?h = "take (length p - length ?t) p"
    have a: "length ?t \<le> length p"
      using length_takeWhile_le [of "\<lambda>c. c \<noteq> CHR ''/''" "rev p"] by simp
    have b: "length (rstrip_slash ?h) \<le> length ?h"
      using length_dropWhile_le [of "\<lambda>c. c = CHR ''/''" "rev ?h"]
      by (simp add: rstrip_slash_def)
    have c: "length ?h + length ?t \<le> length p"
      using a by simp
    have "length (fst (path_split p)) \<le> length ?h"
      using b by (simp add: path_split_def Let_def)
    moreover have "length (snd (path_split p)) = length ?t"
      by (simp add: path_split_def Let_def)
    ultimately show ?thesis
      using c by linarith
  qed
  have "length (fst (makedirs_split name)) < length name"
  proof (cases "snd (path_split name) = []")
    case True
    then have "makedirs_split name = path_split (fst (path_split name))"
      by (simp add: makedirs_split_def)
    with t s [of "fst (path_split name)"] s [of name] show ?thesis
      by (cases "snd (path_split (fst (path_split name)))") auto
  next
    case False
    then have "makedirs_split name = path_split name"
      by (simp add: makedirs_split_def)
    with t s [of name] show ?thesis
      by (cases "snd (path_split name)") auto
  qed
  then show "((w, fst (makedirs_split name)), (w, name)) \<in> measure (\<lambda>(w, name). length name)"
    by simp
qed

text \<open>\<open>os.path.join\<close> of two components (POSIX).\<close>

definition path_join :: "string \<Rightarrow> string \<Rightarrow> string" where
  "path_join a b =
     (if (case b of [] \<Rightarrow> False | c # _ \<Rightarrow> c = CHR ''/'') then b
      else if a = [] \<or> last a = CHR ''/'' then a @ b
      else a @ ''/'' @ b)"

datatype open_mode = ModeW | ModeA

text \<open>\<open>with open(p, mode) as f: f.write(s)\<close>, for the modes "w" and "a".\<close>

definition open_write ::
  "world \<Rightarrow> string \<Rightarrow> open_mode \<Rightarrow> fsym list \<Rightarrow> (py_error + unit) \<times> world" where
  "open_write w p mode s =
     (case lookup w p of
        Failed e \<Rightarrow> (Inl e, w)
      | Missing k slash \<Rightarrow>
          if slash then (Inl IsADirectoryError, w)
          else (Inr (), w\<lparr>nodes := (nodes w)(k \<mapsto> File s)\<rparr>)
      | Found k Dir _ \<Rightarrow> (Inl IsADirectoryError, w)
      | Found k (File old) slash \<Rightarrow>
          if slash then (Inl IsADirectoryError, w)
          else (Inr (), w\<lparr>nodes := (nodes w)(k \<mapsto>
                  File (case mode of ModeW \<Rightarrow> s | ModeA \<Rightarrow> old @ s))\<rparr>))"

text \<open>\<open>with open(p) as f: f.read()\<close>\<close>

definition open_read :: "world \<Rightarrow> string \<Rightarrow> py_error + fsym list" where
  "open_read w p =
     (case stat w p of
        Inl e \<Rightarrow> Inl e
      | Inr (_, Dir) \<Rightarrow> Inl IsADirectoryError
      | Inr (_, File c) \<Rightarrow> Inr c)"

text \<open>
  \<open>with open(p) as f: json.load(f)\<close>: the file must hold one document, with nothing
  but JSON white space before and after it. Characters are not parsed: the documents
  are the values that \<open>json.dump\<close> wrote, so a file whose characters spell a document
  is outside this model, and no property below rests on such a file being refused.
\<close>

definition json_space :: "fsym \<Rightarrow> bool" where
  "json_space x = (x = Ch CHR '' '' \<or> x = Ch (CHR 0x09) \<or> x = Ch (CHR 0x0A) \<or> x = Ch (CHR 0x0D))"

definition load_json :: "world \<Rightarrow> string \<Rightarrow> py_error + caption_entry list" where
  "load_json w p =
     (case open_read w p of
        Inl e \<Rightarrow> Inl e
      | Inr c \<Rightarrow>
          (case rev (dropWhile json_space (rev (dropWhile json_space c))) of
             [JsonDoc d] \<Rightarrow> Inr d
           | _ \<Rightarrow> Inl JSONDecodeError))"

subsection \<open>export\_metrics\<close>

definition TAB :: char where "TAB = CHR 0x09"
definition NL :: char where "NL = CHR 0x0A"

text \<open>
  Lines 17 to 20. \<open>fmt\<close> is the float format \<open>{:.3f}\<close>.
\<close>

definition metrics_str :: "(real \<Rightarrow> string) \<Rightarrow> metrics_dict \<Rightarrow> string" where
  "metrics_str fmt avg = foldl (\<lambda>s (m, v). s @ m @ [TAB] @ fmt v @ [TAB]) [] avg"

definition scores_line :: "(real \<Rightarrow> string) \<Rightarrow> metrics_dict \<Rightarrow> string \<Rightarrow> string" where
  "scores_line fmt avg model_basename = model_basename @ [TAB] @ metrics_str fmt avg @ [NL]"

text \<open>Lines 25 to 29: the mode is chosen, the file opened and the line written.\<close>

definition write_scores ::
  "string \<Rightarrow> fsym list \<Rightarrow> world \<Rightarrow> (py_error + unit) \<times> world" where
  "write_scores path s w =
     open_write w path (if \<not> path_exists w path then ModeW else ModeA) s"

definition export_metrics ::
  "(real \<Rightarrow> string) \<Rightarrow> metrics_dict \<Rightarrow> string \<Rightarrow> string \<Rightarrow> string \<Rightarrow> world
     \<Rightarrow> (py_error + unit) \<times> world" where
  "export_metrics fmt avg scores_dir scores_file model_basename w =
     (let path = path_join scores_dir scores_file;
          s = text_of (scores_line fmt avg model_basename)
      in if \<not> path_exists w scores_dir
         then (case makedirs w scores_dir of
                 (Inl e, w1) \<Rightarrow> (Inl e, w1)
               | (Inr u, w1) \<Rightarrow> write_scores path s w1)
         else write_scores path s w)"

subsection \<open>Two notions for stating what a call leaves behind\<close>

text \<open>
  The content of the regular file at a place, empty when there is no regular file, and
  the relation between a world and a later one in which nothing has changed but for
  directories that have been added.
\<close>

definition content_at :: "world \<Rightarrow> string list \<Rightarrow> fsym list" where
  "content_at w k = (case nodes w k of Some (File c) \<Rightarrow> c | _ \<Rightarrow> [])"

definition grown :: "world \<Rightarrow> world \<Rightarrow> bool" where
  "grown w w' =
     (cwd w' = cwd w \<and> rng w' = rng w \<and> events w' = events w \<and>
      (\<forall>k. nodes w' k = nodes w k \<or> (nodes w k = None \<and> nodes w' k = Some Dir)))"

text \<open>
  The lines of a text: the pieces that end in a newline, and the unfinished piece after
  the last newline when there is one.
\<close>

fun lines_from :: "'a \<Rightarrow> 'a list \<Rightarrow> 'a list \<Rightarrow> 'a list list" where
  "lines_from sep cur [] = (if cur = [] then [] else [cur])"
| "lines_from sep cur (x # xs) =
     (if x = sep then cur # lines_from sep [] xs else lines_from sep (cur @ [x]) xs)"

definition lines_of :: "fsym list \<Rightarrow> fsym list list" where
  "lines_of c = lines_from (Ch NL) [] c"

subsection \<open>What the driver calls but does not define\<close>

text \<open>
  A dataset sample: \<open>ds[i]["filename"]\<close>, \<open>ds[i][IMAGE_FIELD]\<close> and
  \<open>ds[i][RAW_CAPTION_FIELD]\<close>.
\<close>

record 'img sample =
  filename :: string
  image :: 'img
  raw_caption :: "string list"

text \<open>
  The imported functions, with the arguments the driver gives them. Images, tensors,
  the captioning model and the processor are opaque. \<open>generate_caption\<close> reads and
  advances the state of the random generators, which \<open>seed_everything\<close> sets from the
  seed. \<open>compute_captioning_metrics\<close> takes preds, reference\_captions, avg\_metrics,
  i and no\_meteor\_count, and returns the new avg\_metrics.
\<close>

record ('img, 'tns, 'mdl, 'prc) env =
  get_model_basename :: "string \<Rightarrow> string"
  get_splits_for_evaluation ::
    "str_or_list \<Rightarrow> str_or_list \<Rightarrow> str_or_list \<Rightarrow> bool \<Rightarrow> 'img sample list"
  compute_captioning_metrics ::
    "string list \<Rightarrow> string list \<Rightarrow> metrics_dict \<Rightarrow> nat \<Rightarrow> nat \<Rightarrow> metrics_dict"
  load_from_checkpoint :: "string \<Rightarrow> 'mdl"
  from_pretrained :: "string \<Rightarrow> 'prc"
  preprocessor :: "'prc \<Rightarrow> 'img \<Rightarrow> 'tns"
  generate_caption :: "'tns \<Rightarrow> 'mdl \<Rightarrow> bool \<Rightarrow> nat \<Rightarrow> string list \<times> nat"
  seed_everything :: "int \<Rightarrow> nat"
  format_3f :: "real \<Rightarrow> string"

text \<open>The parsed command line (lines 161 to 190).\<close>

record args =
  seed :: int
  scores_dir :: string
  scores_file :: string
  model_pth :: "string option"
  model_basename :: "string option"
  processor :: string
  use_beam_search :: bool
  metrics :: "string list"
  no_splits :: bool
  no_evaluation :: bool
  export_captions :: bool
  captions_export_file :: string
  captions_import_file :: "string option"
  annotations_files :: str_or_list
  img_dirs :: str_or_list
  splits :: str_or_list

subsection \<open>eval\_model\<close>

text \<open>The local variables of the two metric loops.\<close>

record acc =
  avg_metrics :: metrics_dict
  no_meteor_count :: nat

record eval_vars = acc +
  captions :: "caption_entry list"

text \<open>The body of the loop of lines 62 to 81, on the locals and the generator state.\<close>

definition eval_step ::
  "('img, 'tns, 'mdl, 'prc) env \<Rightarrow> args \<Rightarrow> 'mdl \<Rightarrow> 'prc \<Rightarrow> 'img sample list
     \<Rightarrow> eval_vars \<times> nat \<Rightarrow> nat \<Rightarrow> eval_vars \<times> nat" where
  "eval_step env a model proc ds st i =
     (let (vars, r) = st;
          img = preprocessor env proc (image (ds ! i));
          reference_captions = raw_caption (ds ! i);
          (preds, r') = generate_caption env img model (use_beam_search a) r;
          vars1 = (if \<not> no_evaluation a
                   then vars\<lparr>avg_metrics :=
                          compute_captioning_metrics env preds reference_captions
                            (avg_metrics vars) i (no_meteor_count vars)\<rparr>
                   else vars);
          vars2 = (if export_captions a
                   then vars1\<lparr>captions :=
                          captions vars1 @
                            [CaptionRecord (filename (ds ! i)) preds reference_captions]\<rparr>
                   else vars1)
      in (vars2, r'))"

text \<open>\<open>for i in range(0, len(ds))\<close>\<close>

definition eval_loop ::
  "('img, 'tns, 'mdl, 'prc) env \<Rightarrow> args \<Rightarrow> 'mdl \<Rightarrow> 'prc \<Rightarrow> 'img sample list
     \<Rightarrow> eval_vars \<times> nat \<Rightarrow> eval_vars \<times> nat" where
  "eval_loop env a model proc ds st = foldl (eval_step env a model proc ds) st [0..<length ds]"

definition eval_model ::
  "('img, 'tns, 'mdl, 'prc) env \<Rightarrow> 'mdl \<Rightarrow> 'prc \<Rightarrow> args \<Rightarrow> world
     \<Rightarrow> (caption_entry list \<times> metrics_dict) \<times> world" where
  "eval_model env model proc a w =
     (let w1 = w\<lparr>rng := seed_everything env (seed a)\<rparr>;
          ds = get_splits_for_evaluation env (annotations_files a) (img_dirs a) (splits a)
                 (\<not> no_splits a);
          (vars, r) = eval_loop env a model proc ds
                        (\<lparr>avg_metrics = init_metrics (metrics a), no_meteor_count = 0,
                          captions = []\<rparr>, rng w1)
      in ((captions vars, avg_metrics vars), w1\<lparr>rng := r\<rparr>))"

subsection \<open>main\<close>

text \<open>
  The loop of lines 148 to 152 over the imported list. \<open>data[i]["preds"]\<close> raises
  KeyError on an entry that has no such key.
\<close>

fun import_loop ::
  "('img, 'tns, 'mdl, 'prc) env \<Rightarrow> caption_entry list \<Rightarrow> nat list \<Rightarrow> acc \<Rightarrow> py_error + acc" where
  "import_loop env data [] vars = Inr vars"
| "import_loop env data (i # is) vars =
     (case list_getitem data (int i) of
        Inl e \<Rightarrow> Inl e
      | Inr (ModelBasename _) \<Rightarrow> Inl (KeyError ''preds'')
      | Inr (CaptionRecord _ preds reference_captions) \<Rightarrow>
          import_loop env data is
            (vars\<lparr>avg_metrics :=
                    compute_captioning_metrics env preds reference_captions
                      (avg_metrics vars) i (no_meteor_count vars)\<rparr>))"

text \<open>Lines 136 to 157: the branch taken when captions\_import\_file is given.\<close>

definition import_evaluation ::
  "('img, 'tns, 'mdl, 'prc) env \<Rightarrow> args \<Rightarrow> string \<Rightarrow> world \<Rightarrow> (py_error + unit) \<times> world" where
  "import_evaluation env a import_file w =
     (case load_json w import_file of
        Inl e \<Rightarrow> (Inl e, w)
      | Inr data \<Rightarrow>
          (case list_getitem data (int (length data) - 1) of
             Inl e \<Rightarrow> (Inl e, w)
           | Inr (CaptionRecord _ _ _) \<Rightarrow> (Inl (KeyError ''model_basename''), w)
           | Inr (ModelBasename basename) \<Rightarrow>
               (case import_loop env data [0..<nat (int (length data) - 1)]
                       \<lparr>avg_metrics = init_metrics (metrics a), no_meteor_count = 0\<rparr> of
                  Inl e \<Rightarrow> (Inl e, w)
                | Inr vars \<Rightarrow>
                    export_metrics (format_3f env) (avg_metrics vars) (scores_dir a)
                      (scores_file a) basename w)))"

text \<open>Lines 104 to 111: a list argument of one element is replaced by that element.\<close>

definition unwrap_args :: "args \<Rightarrow> args" where
  "unwrap_args a =
     a\<lparr>splits := (if \<not> no_splits a \<and> py_len (splits a) = 1
                  then first_item (splits a) else splits a),
       annotations_files := (if py_len (annotations_files a) = 1
                             then first_item (annotations_files a) else annotations_files a),
       img_dirs := (if py_len (img_dirs a) = 1
                    then first_item (img_dirs a) else img_dirs a)\<rparr>"

text \<open>Lines 102 to 134: the fresh evaluation, once the arguments have passed the checks.\<close>

definition fresh_evaluation ::
  "('img, 'tns, 'mdl, 'prc) env \<Rightarrow> args \<Rightarrow> string \<Rightarrow> world \<Rightarrow> (py_error + unit) \<times> world" where
  "fresh_evaluation env a0 pth w =
     (let a = unwrap_args a0;
          model = load_from_checkpoint env pth;
          w1 = w\<lparr>events := events w @ [LoadCheckpoint pth]\<rparr>;
          proc = from_pretrained env (processor a);
          w2 = w1\<lparr>events := events w1 @ [LoadProcessor (processor a)]\<rparr>;
          basename = (case model_basename a of
                        Some b \<Rightarrow> b
                      | None \<Rightarrow> get_model_basename env pth);
          ((caps, avg), w3) = eval_model env model proc a w2
      in if \<not> export_captions a
         then export_metrics (format_3f env) avg (scores_dir a) (scores_file a)
                (get_model_basename env pth) w3
         else (case list_setitem caps (int (length caps) - 1) (ModelBasename basename) of
                 Inl e \<Rightarrow> (Inl e, w3)
               | Inr caps' \<Rightarrow> open_write w3 (captions_export_file a) ModeW [JsonDoc caps']))"

definition main ::
  "('img, 'tns, 'mdl, 'prc) env \<Rightarrow> args \<Rightarrow> world \<Rightarrow> (py_error + unit) \<times> world" where
  "main env a w =
     (case captions_import_file a of
        None \<Rightarrow>
          (case model_pth a of
             None \<Rightarrow> (Inl NoModelNorImport, w)
           | Some pth \<Rightarrow>
               if \<not> no_splits a \<and> py_len (splits a) \<noteq> py_len (annotations_files a)
               then (Inl SplitsMismatch, w)
               else if export_captions a \<and>
                       (length (captions_export_file a) = 0 \<or>
                        \<not> endswith (captions_export_file a) ''.json'')
               then (Inl BadExportFile, w)
               else if \<not> export_captions a \<and> no_evaluation a
               then (Inl ExportEvalConflict, w)
               else fresh_evaluation env a pth w)
      | Some import_file \<Rightarrow> import_evaluation env a import_file w)"

subsection \<open>An environment that ignores the counter\<close>

text \<open>
  The environment in which the metric function ignores the counter it is handed and
  works with 0 in its place. It is used to state what the driver passes as the counter.
\<close>

definition zero_counter ::
  "('img, 'tns, 'mdl, 'prc) env \<Rightarrow> ('img, 'tns, 'mdl, 'prc) env" where
  "zero_counter env =
     env\<lparr>compute_captioning_metrics :=
           (\<lambda>preds refs avg i c. compute_captioning_metrics env preds refs avg i 0)\<rparr>"

subsection \<open>An example environment\<close>

text \<open>
  Modelled from the spec: \<open>compute_captioning_metrics\<close> of evaluation.utils is not
  among the sources. The spec describes the accumulator as a running average per
  metric, updated once per processed sample, with a denominator adjusted by the count
  of samples for which the metric could not be computed. \<open>score\<close> is the value of a
  metric on one sample. It is used in the examples only.
\<close>

definition running_average ::
  "(string \<Rightarrow> string list \<Rightarrow> string list \<Rightarrow> real)
     \<Rightarrow> string list \<Rightarrow> string list \<Rightarrow> metrics_dict \<Rightarrow> nat \<Rightarrow> nat \<Rightarrow> metrics_dict" where
  "running_average score preds refs avg i c =
     map (\<lambda>(m, v). (m, v + (score m preds refs - v) / (real i + 1 - real c))) avg"

text \<open>A score for the examples: 1 when a prediction is one of the references, else 0.\<close>

definition exact_match :: "string \<Rightarrow> string list \<Rightarrow> string list \<Rightarrow> real" where
  "exact_match m preds refs = (if list_ex (\<lambda>p. p \<in> set refs) preds then 1 else 0)"

text \<open>The float format on the three values that occur in the examples.\<close>

definition ex_format :: "real \<Rightarrow> string" where
  "ex_format v = (if v = 0 then ''0.000'' else if v = 1 then ''1.000'' else ''0.500'')"

definition ex_ds :: "nat sample list" where
  "ex_ds =
     [\<lparr>filename = ''a.jpg'', image = 0, raw_caption = [''a plane'']\<rparr>,
      \<lparr>filename = ''b.jpg'', image = 1, raw_caption = [''a river'', ''water'']\<rparr>]"

text \<open>
  Two samples; the captioner is right on the first and wrong on the second. A model and
  a processor are named by what they were loaded from.
\<close>

definition ex_env :: "(nat, nat, string, string) env" where
  "ex_env =
     \<lparr>get_model_basename = takeWhile (\<lambda>c. c \<noteq> CHR ''.''),
      get_splits_for_evaluation = (\<lambda>anns dirs spl use_splits. ex_ds),
      compute_captioning_metrics = running_average exact_match,
      load_from_checkpoint = (\<lambda>pth. pth),
      from_pretrained = (\<lambda>name. name),
      preprocessor = (\<lambda>proc img. img),
      generate_caption =
        (\<lambda>img model beam r. ([if img = 0 then ''a plane'' else ''a lake''], Suc r)),
      seed_everything = (\<lambda>s. nat \<bar>s\<bar>),
      format_3f = ex_format\<rparr>"

definition ex_args :: args where
  "ex_args =
     \<lparr>seed = 42, scores_dir = ''eval_results'', scores_file = ''clip_cap_scores.tsv'',
      model_pth = Some ''ckpt.pt'', model_basename = None,
      processor = ''openai/clip-vit-base-patch32'', use_beam_search = False,
      metrics = [''BLEU1''], no_splits = False, no_evaluation = False,
      export_captions = False, captions_export_file = ''exported_captions.json'',
      captions_import_file = None,
      annotations_files = StrList [''rsicd.json'', ''ucmd.json''],
      img_dirs = StrList [''rsicd_images'', ''ucmd_images''],
      splits = StrList [''val'', ''test'']\<rparr>"

text \<open>A world with a working directory and nothing else.\<close>

definition ex_world :: world where
  "ex_world = \<lparr>nodes = [[''work''] \<mapsto> Dir], cwd = [''work''], rng = 0, events = []\<rparr>"

text \<open>A world in which the scores directory and a scores file of one line exist.\<close>

definition ex_world_scored :: world where
  "ex_world_scored =
     ex_world\<lparr>nodes := [[''work''] \<mapsto> Dir, [''work'', ''eval_results''] \<mapsto> Dir,
       [''work'', ''eval_results'', ''clip_cap_scores.tsv''] \<mapsto>
         File (text_of (''old'' @ [TAB] @ [NL]))]\<rparr>"


section \<open>Properties\<close>

subsection \<open>Configuration errors are raised before anything is loaded\<close>

text \<open>
  C4. With no import file, per-file splitting requested and a number of splits that
  differs from the number of annotation files, the driver raises: the missing-model
  exception when model\_pth is None as well, the split-count exception otherwise. The
  world comes back as it was, so no checkpoint and no processor has been loaded.
\<close>

theorem split_count_mismatch_raises:
  "captions_import_file a = None \<Longrightarrow> \<not> no_splits a \<Longrightarrow>
   py_len (splits a) \<noteq> py_len (annotations_files a) \<Longrightarrow>
   main env a w = (Inl (if model_pth a = None then NoModelNorImport else SplitsMismatch), w) \<and>
   events (snd (main env a w)) = events w"
  by (simp add: main_def split: option.splits)

theorem split_count_mismatch_raises_witness:
  "captions_import_file (ex_args\<lparr>splits := StrList [''val'']\<rparr>) = None \<and>
   \<not> no_splits (ex_args\<lparr>splits := StrList [''val'']\<rparr>) \<and>
   py_len (splits (ex_args\<lparr>splits := StrList [''val'']\<rparr>)) \<noteq>
     py_len (annotations_files (ex_args\<lparr>splits := StrList [''val'']\<rparr>)) \<and>
   main ex_env (ex_args\<lparr>splits := StrList [''val'']\<rparr>) ex_world =
     (Inl SplitsMismatch, ex_world) \<and>
   events (snd (main ex_env (ex_args\<lparr>splits := StrList [''val'']\<rparr>) ex_world)) = []"
  using split_count_mismatch_raises [of "ex_args\<lparr>splits := StrList [''val'']\<rparr>" ex_env ex_world]
  by (simp add: ex_args_def ex_world_def)

text \<open>
  C5. With no import file, caption export requested and an export path that does not
  end in ".json", the driver raises (an earlier check may raise first) and the world
  comes back as it was: nothing has been loaded.
\<close>

theorem bad_export_file_raises:
  "captions_import_file a = None \<Longrightarrow> export_captions a \<Longrightarrow>
   \<not> endswith (captions_export_file a) ''.json'' \<Longrightarrow>
   main env a w =
     (Inl (if model_pth a = None then NoModelNorImport
           else if \<not> no_splits a \<and> py_len (splits a) \<noteq> py_len (annotations_files a)
           then SplitsMismatch else BadExportFile), w) \<and>
   events (snd (main env a w)) = events w"
  by (simp add: main_def split: option.splits)

theorem bad_export_file_raises_witness:
  "captions_import_file
     (ex_args\<lparr>export_captions := True, captions_export_file := ''captions.txt''\<rparr>) = None \<and>
   export_captions (ex_args\<lparr>export_captions := True, captions_export_file := ''captions.txt''\<rparr>) \<and>
   \<not> endswith (captions_export_file
        (ex_args\<lparr>export_captions := True, captions_export_file := ''captions.txt''\<rparr>)) ''.json'' \<and>
   main ex_env (ex_args\<lparr>export_captions := True, captions_export_file := ''captions.txt''\<rparr>)
     ex_world = (Inl BadExportFile, ex_world)"
  using bad_export_file_raises
    [of "ex_args\<lparr>export_captions := True, captions_export_file := ''captions.txt''\<rparr>"
        ex_env ex_world]
  by (simp add: ex_args_def endswith_def)

text \<open>
  C6. With no import file, no caption export and evaluation switched off, the driver
  raises (an earlier check may raise first) and the world comes back as it was: nothing
  has been loaded.
\<close>

theorem no_export_no_evaluation_raises:
  "captions_import_file a = None \<Longrightarrow> \<not> export_captions a \<Longrightarrow> no_evaluation a \<Longrightarrow>
   main env a w =
     (Inl (if model_pth a = None then NoModelNorImport
           else if \<not> no_splits a \<and> py_len (splits a) \<noteq> py_len (annotations_files a)
           then SplitsMismatch else ExportEvalConflict), w) \<and>
   events (snd (main env a w)) = events w"
  by (simp add: main_def split: option.splits)

theorem no_export_no_evaluation_raises_witness:
  "captions_import_file (ex_args\<lparr>no_evaluation := True\<rparr>) = None \<and>
   \<not> export_captions (ex_args\<lparr>no_evaluation := True\<rparr>) \<and>
   no_evaluation (ex_args\<lparr>no_evaluation := True\<rparr>) \<and>
   main ex_env (ex_args\<lparr>no_evaluation := True\<rparr>) ex_world =
     (Inl ExportEvalConflict, ex_world)"
  using no_export_no_evaluation_raises [of "ex_args\<lparr>no_evaluation := True\<rparr>" ex_env ex_world]
  by (simp add: ex_args_def)


subsection \<open>Path resolution and added directories\<close>

text \<open>
  The recursive equation of \<open>makedirs\<close> is unfolded one call at a time. A world that only
  gains directories resolves every path that resolved before to the same place.
\<close>

declare makedirs.simps [simp del]

lemma walk_kept:
  "(\<And>k. node_at w k = Some Dir \<Longrightarrow> node_at w' k = Some Dir) \<Longrightarrow>
   walk w cur cs = Inr k \<Longrightarrow> walk w' cur cs = Inr k"
proof (induction cs arbitrary: cur)
  case Nil
  then show ?case by simp
next
  case (Cons c cs)
  from Cons.prems(2) have d: "node_at w cur = Some Dir"
    by (auto split: option.splits node.splits)
  with Cons.prems(2) have "walk w (step cur c) cs = Inr k"
    by simp
  then have "walk w' (step cur c) cs = Inr k"
    using Cons.IH Cons.prems(1) by blast
  moreover have "node_at w' cur = Some Dir"
    using d Cons.prems(1) by blast
  ultimately show ?case by simp
qed

lemma lookup_kept:
  assumes c: "cwd w' = cwd w"
    and d: "\<And>k. node_at w k = Some Dir \<Longrightarrow> node_at w' k = Some Dir"
    and f: "\<And>e. lookup w p \<noteq> Failed e"
  shows "lookup w' p =
     (case lookup w p of
        Failed e \<Rightarrow> Failed e
      | Missing k s \<Rightarrow> (case node_at w' k of None \<Rightarrow> Missing k s | Some n \<Rightarrow> Found k n s)
      | Found k Dir s \<Rightarrow> Found k Dir s
      | Found k (File c) s \<Rightarrow>
          (case node_at w' k of None \<Rightarrow> Missing k s | Some n \<Rightarrow> Found k n s))"
proof -
  let ?names = "strip_trailing (split_slash p)"
  have p1: "p \<noteq> []"
  proof
    assume "p = []"
    then have "lookup w p = Failed FileNotFoundError"
      by (simp add: lookup_def)
    with f show False by blast
  qed
  have p2: "CHR 0x00 \<notin> set p"
  proof
    assume "CHR 0x00 \<in> set p"
    with p1 have "lookup w p = Failed ValueError"
      by (simp add: lookup_def)
    with f show False by blast
  qed
  show ?thesis
  proof (cases "?names = []")
    case True
    with p1 p2 show ?thesis
      by (simp add: lookup_def Let_def)
  next
    case False
    have s: "start_at w' p = start_at w p"
      using c by (simp add: start_at_def split: list.splits)
    have u: "lookup w p =
        (case walk w (start_at w p) (butlast ?names) of
           Inl e \<Rightarrow> Failed e
         | Inr k \<Rightarrow>
             (case node_at w k of
                None \<Rightarrow> Failed FileNotFoundError
              | Some (File _) \<Rightarrow> Failed NotADirectoryError
              | Some Dir \<Rightarrow>
                  if last ?names = ''.'' then Found k Dir (?names \<noteq> split_slash p)
                  else if last ?names = ''..'' then Found (butlast k) Dir (?names \<noteq> split_slash p)
                  else (case node_at w (k @ [last ?names]) of
                          None \<Rightarrow> Missing (k @ [last ?names]) (?names \<noteq> split_slash p)
                        | Some n \<Rightarrow> Found (k @ [last ?names]) n (?names \<noteq> split_slash p))))"
      for w :: world
      using p1 p2 False by (simp add: lookup_def Let_def)
    obtain k where k: "walk w (start_at w p) (butlast ?names) = Inr k"
    proof (cases "walk w (start_at w p) (butlast ?names)")
      case (Inl e)
      then have "lookup w p = Failed e"
        by (simp add: u)
      with f show ?thesis by blast
    next
      case (Inr k)
      then show ?thesis using that by blast
    qed
    have kd: "node_at w k = Some Dir"
    proof (cases "node_at w k")
      case None
      then have "lookup w p = Failed FileNotFoundError"
        using k by (simp add: u)
      with f show ?thesis by blast
    next
      case (Some n)
      show ?thesis
      proof (cases n)
        case Dir
        with Some show ?thesis by simp
      next
        case (File x)
        then have "lookup w p = Failed NotADirectoryError"
          using k Some by (simp add: u)
        with f show ?thesis by blast
      qed
    qed
    have k': "walk w' (start_at w p) (butlast ?names) = Inr k"
      using walk_kept [of w w', OF d k] by simp
    have kd': "node_at w' k = Some Dir"
      using d kd by blast
    have nn: "k @ [last ?names] \<noteq> []"
      by simp
    show ?thesis
      using d [of "k @ [last ?names]"]
      by (auto simp: u [of w] u [of w'] s k kd k' kd'
          split: option.splits node.splits)
  qed
qed

lemma lookup_Missing_at: "lookup w p = Missing k s \<Longrightarrow> node_at w k = None"
  by (simp add: lookup_def Let_def split: if_splits sum.splits option.splits node.splits)

lemma lookup_Found_at: "lookup w p = Found k (File c) s \<Longrightarrow> node_at w k = Some (File c)"
  by (simp add: lookup_def Let_def split: if_splits sum.splits option.splits node.splits)

lemma node_at_nodes: "node_at w k = None \<or> node_at w k = Some (File c) \<Longrightarrow> k \<noteq> [] \<and> nodes w k = node_at w k"
  by (auto simp: node_at_def split: if_splits)

lemma lookup_Missing: "lookup w p = Missing k s \<Longrightarrow> nodes w k = None \<and> k \<noteq> []"
  using lookup_Missing_at [of w p k s] node_at_nodes [of w k] by auto

lemma lookup_Found_File:
  "lookup w p = Found k (File c) s \<Longrightarrow> nodes w k = Some (File c) \<and> k \<noteq> []"
  using lookup_Found_at [of w p k c s] node_at_nodes [of w k c] by auto

lemma grown_refl: "grown w w"
  by (simp add: grown_def)


lemma grown_trans: "grown w w1 \<Longrightarrow> grown w1 w2 \<Longrightarrow> grown w w2"
proof -
  assume a: "grown w w1" and b: "grown w1 w2"
  have "nodes w2 k = nodes w k \<or> (nodes w k = None \<and> nodes w2 k = Some Dir)" for k
  proof -
    from a have x: "nodes w1 k = nodes w k \<or> (nodes w k = None \<and> nodes w1 k = Some Dir)"
      by (simp add: grown_def)
    from b have y: "nodes w2 k = nodes w1 k \<or> (nodes w1 k = None \<and> nodes w2 k = Some Dir)"
      by (simp add: grown_def)
    from x y show ?thesis by auto
  qed
  moreover have "cwd w2 = cwd w" "rng w2 = rng w" "events w2 = events w"
    using a b by (simp_all add: grown_def)
  ultimately show ?thesis
    by (simp add: grown_def)
qed


lemma grown_content: "grown w w' \<Longrightarrow> content_at w' k = content_at w k"
proof -
  assume g: "grown w w'"
  then have "nodes w' k = nodes w k \<or> (nodes w k = None \<and> nodes w' k = Some Dir)"
    by (simp add: grown_def)
  then show ?thesis
    by (auto simp: content_at_def)
qed

lemma mkdir_grown: "grown w (snd (mkdir w p))"
proof (cases "lookup w p")
  case (Missing k s)
  then have "nodes w k = None"
    using lookup_Missing by blast
  with Missing show ?thesis
    by (simp add: mkdir_def grown_def)
qed (simp_all add: mkdir_def grown_refl)

lemma makedirs_leaf:
  "\<not> (fst (makedirs_split name) \<noteq> [] \<and> snd (makedirs_split name) \<noteq> [] \<and>
      \<not> path_exists w (fst (makedirs_split name))) \<Longrightarrow>
   makedirs w name = mkdir w name"
  using makedirs.simps [of w name] by auto

lemma makedirs_inner:
  "fst (makedirs_split name) \<noteq> [] \<and> snd (makedirs_split name) \<noteq> [] \<and>
     \<not> path_exists w (fst (makedirs_split name)) \<Longrightarrow>
   makedirs w (fst (makedirs_split name)) = (r, w1) \<Longrightarrow>
   makedirs w name =
     (if r = Inl FileExistsError \<or> r = Inr ()
      then (if snd (makedirs_split name) = ''.'' then (Inr (), w1) else mkdir w1 name)
      else (r, w1))"
  using makedirs.simps [of w name] by (cases r) auto

lemma makedirs_grown: "grown w (snd (makedirs w name))"
proof (induction w name rule: makedirs.induct)
  case (1 w name)
  let ?h = "fst (makedirs_split name)" and ?t = "snd (makedirs_split name)"
  show ?case
  proof (cases "?h \<noteq> [] \<and> ?t \<noteq> [] \<and> \<not> path_exists w ?h")
    case False
    then have "makedirs w name = mkdir w name"
      by (rule makedirs_leaf)
    then show ?thesis by (simp add: mkdir_grown)
  next
    case True
    then have g: "grown w (snd (makedirs w ?h))"
      using "1.IH" by simp
    obtain r w1 where m: "makedirs w ?h = (r, w1)"
      by (cases "makedirs w ?h")
    have g1: "grown w w1"
      using g m by simp
    have g2: "grown w (snd (mkdir w1 name))"
      using g1 mkdir_grown [of w1 name] grown_trans by blast
    show ?thesis
      using g1 g2 by (simp add: makedirs_inner [OF True m])
  qed
qed

lemma stat_Found_Dir: "lookup w p = Found k Dir s \<Longrightarrow> stat w p = Inr (k, Dir)"
  by (simp add: stat_def)



subsection \<open>Writing the scores line\<close>

lemma stat_File: "stat w p = Inr (k, File c) \<longleftrightarrow> lookup w p = Found k (File c) False"
  by (cases "lookup w p") (auto simp: stat_def split: node.splits)

lemma stat_after_write:
  assumes l: "lookup w p = Found k (File old) False \<or> lookup w p = Missing k False"
  shows "stat (w\<lparr>nodes := (nodes w)(k \<mapsto> File c)\<rparr>) p = Inr (k, File c)"
proof -
  let ?w = "w\<lparr>nodes := (nodes w)(k \<mapsto> File c)\<rparr>"
  have k: "k \<noteq> []" "nodes w k \<noteq> Some Dir"
    using l lookup_Missing [of w p k False] lookup_Found_File [of w p k old False] by auto
  have d: "\<And>j. node_at w j = Some Dir \<Longrightarrow> node_at ?w j = Some Dir"
    using k by (auto simp: node_at_def)
  have f: "\<And>e. lookup w p \<noteq> Failed e"
    using l by auto
  have "lookup ?w p =
      (case node_at ?w k of None \<Rightarrow> Missing k False | Some n \<Rightarrow> Found k n False)"
    using lookup_kept [of ?w w p, OF _ d f] l by auto
  then have "lookup ?w p = Found k (File c) False"
    using k by (simp add: node_at_def)
  then show ?thesis
    by (simp add: stat_File)
qed


lemma write_scores_existing:
  "stat w p = Inr (k, File old) \<Longrightarrow>
   write_scores p s w = (Inr (), w\<lparr>nodes := (nodes w)(k \<mapsto> File (old @ s))\<rparr>)"
proof -
  assume s: "stat w p = Inr (k, File old)"
  then have l: "lookup w p = Found k (File old) False"
    by (simp add: stat_File)
  have "path_exists w p"
    using s by (simp add: path_exists_def)
  then show ?thesis
    using l by (simp add: write_scores_def open_write_def)
qed


lemma write_scores_ok:
  assumes ok: "fst (write_scores p s w) = Inr ()"
  shows "\<exists>k. k \<noteq> [] \<and> nodes w k \<noteq> Some Dir \<and>
    snd (write_scores p s w) = w\<lparr>nodes := (nodes w)(k \<mapsto> File (content_at w k @ s))\<rparr> \<and>
    stat (snd (write_scores p s w)) p = Inr (k, File (content_at w k @ s))"
proof (cases "lookup w p")
  case (Failed e)
  with ok show ?thesis
    by (simp add: write_scores_def open_write_def)
next
  case (Missing k sl)
  with ok have sl: "\<not> sl"
    by (auto simp: write_scores_def open_write_def split: if_splits)
  have n: "nodes w k = None" "k \<noteq> []"
    using Missing lookup_Missing by blast+
  have e: "\<not> path_exists w p"
    using Missing by (simp add: path_exists_def stat_def)
  have w': "snd (write_scores p s w) = w\<lparr>nodes := (nodes w)(k \<mapsto> File (content_at w k @ s))\<rparr>"
    using Missing sl e n by (simp add: write_scores_def open_write_def content_at_def)
  have "stat (w\<lparr>nodes := (nodes w)(k \<mapsto> File (content_at w k @ s))\<rparr>) p =
      Inr (k, File (content_at w k @ s))"
    using stat_after_write [of w p k _ "content_at w k @ s"] Missing sl by simp
  with w' n show ?thesis by auto
next
  case (Found k nd sl)
  show ?thesis
  proof (cases nd)
    case Dir
    with Found ok show ?thesis
      by (simp add: write_scores_def open_write_def)
  next
    case (File old)
    with Found ok have sl: "\<not> sl"
      by (auto simp: write_scores_def open_write_def split: if_splits)
    have l: "lookup w p = Found k (File old) False"
      using Found File sl by simp
    have n: "nodes w k = Some (File old)" "k \<noteq> []"
      using l lookup_Found_File by blast+
    have st: "stat w p = Inr (k, File old)"
      using l by (simp add: stat_File)
    have w': "snd (write_scores p s w) = w\<lparr>nodes := (nodes w)(k \<mapsto> File (content_at w k @ s))\<rparr>"
      using write_scores_existing [OF st, of s] n by (simp add: content_at_def)
    have "stat (w\<lparr>nodes := (nodes w)(k \<mapsto> File (content_at w k @ s))\<rparr>) p =
        Inr (k, File (content_at w k @ s))"
      using stat_after_write [of w p k old "content_at w k @ s"] l by simp
    with w' n show ?thesis by auto
  qed
qed


text \<open>The world in which export\_metrics writes: the one it was given, or what makedirs left.\<close>

lemma export_metrics_exists:
  "path_exists w d \<Longrightarrow>
   export_metrics fmt avg d f b w =
     write_scores (path_join d f) (text_of (scores_line fmt avg b)) w"
  by (simp add: export_metrics_def Let_def)

lemma export_metrics_raises:
  "\<not> path_exists w d \<Longrightarrow> fst (makedirs w d) = Inl e \<Longrightarrow>
   export_metrics fmt avg d f b w = makedirs w d"
  by (cases "makedirs w d") (auto simp: export_metrics_def Let_def)

lemma export_metrics_made:
  "\<not> path_exists w d \<Longrightarrow> fst (makedirs w d) = Inr () \<Longrightarrow>
   export_metrics fmt avg d f b w =
     write_scores (path_join d f) (text_of (scores_line fmt avg b)) (snd (makedirs w d))"
  by (cases "makedirs w d") (auto simp: export_metrics_def Let_def)

lemma export_metrics_success:
  assumes ok: "fst (export_metrics fmt avg d f b w) = Inr ()"
  shows "\<exists>k w1. grown w w1 \<and> k \<noteq> [] \<and> nodes w1 k \<noteq> Some Dir \<and>
    snd (export_metrics fmt avg d f b w) =
      w1\<lparr>nodes := (nodes w1)(k \<mapsto> File (content_at w k @ text_of (scores_line fmt avg b)))\<rparr> \<and>
    stat (snd (export_metrics fmt avg d f b w)) (path_join d f) =
      Inr (k, File (content_at w k @ text_of (scores_line fmt avg b)))"
proof -
  let ?p = "path_join d f" and ?s = "text_of (scores_line fmt avg b)"
  define w1 where "w1 = (if path_exists w d then w else snd (makedirs w d))"
  have g: "grown w w1"
    using makedirs_grown [of w d] by (simp add: w1_def grown_refl)
  have e: "export_metrics fmt avg d f b w = write_scores ?p ?s w1"
  proof (cases "path_exists w d")
    case True
    then show ?thesis by (simp add: w1_def export_metrics_exists)
  next
    case False
    show ?thesis
    proof (cases "fst (makedirs w d)")
      case (Inl err)
      then have "export_metrics fmt avg d f b w = makedirs w d"
        using False by (simp add: export_metrics_raises)
      with ok Inl show ?thesis by simp
    next
      case (Inr u)
      then show ?thesis
        using False by (simp add: w1_def export_metrics_made)
    qed
  qed
  obtain k where k: "k \<noteq> []" "nodes w1 k \<noteq> Some Dir"
    "snd (write_scores ?p ?s w1) = w1\<lparr>nodes := (nodes w1)(k \<mapsto> File (content_at w1 k @ ?s))\<rparr>"
    "stat (snd (write_scores ?p ?s w1)) ?p = Inr (k, File (content_at w1 k @ ?s))"
    using write_scores_ok [of ?p ?s w1] ok e by auto
  have "content_at w1 k = content_at w k"
    using g by (rule grown_content)
  with k e g show ?thesis by auto
qed

subsection \<open>Lines\<close>









text \<open>The definitions that evaluate the file system on the examples.\<close>

lemmas fs_defs =
  node_at_def strip_trailing_def step_def start_at_def lookup_def stat_def path_exists_def
  is_dir_def mkdir_def rstrip_slash_def path_split_def makedirs_split_def makedirs.simps
  path_join_def open_write_def open_read_def json_space_def load_json_def write_scores_def
  export_metrics_def metrics_str_def scores_line_def text_of_def content_at_def lines_of_def
  ex_format_def ex_world_def ex_world_scored_def Let_def TAB_def NL_def




subsection \<open>The evaluation loop and the seed\<close>

text \<open>
  eval\_model changes neither the files nor the working directory nor the record of
  what was loaded. It sets the state of the random generators from the seed before the
  dataset is read, so the state on entry has no effect on what it returns. Whether
  \<open>generate_caption\<close> gives the same captions in two runs is a matter of the libraries
  behind it, which are parameters here.
\<close>

lemma eval_model_nodes: "nodes (snd (eval_model env model proc a w)) = nodes w"
  by (simp add: eval_model_def Let_def split: prod.splits)

lemma eval_model_cwd: "cwd (snd (eval_model env model proc a w)) = cwd w"
  by (simp add: eval_model_def Let_def split: prod.splits)

lemma eval_model_events: "events (snd (eval_model env model proc a w)) = events w"
  by (simp add: eval_model_def Let_def split: prod.splits)

lemma eval_model_reseeds:
  "eval_model env model proc a (w\<lparr>rng := r\<rparr>) = eval_model env model proc a w"
  by (simp add: eval_model_def Let_def split: prod.splits)

subsection \<open>The counter of samples without METEOR\<close>

lemma zero_counter_metrics [simp]:
  "compute_captioning_metrics (zero_counter env) preds refs avg i c =
     compute_captioning_metrics env preds refs avg i 0"
  by (simp add: zero_counter_def)

lemma eval_step_counter:
  "no_meteor_count (fst st) = 0 \<Longrightarrow>
   eval_step (zero_counter env) a model proc ds st i = eval_step env a model proc ds st i \<and>
   no_meteor_count (fst (eval_step env a model proc ds st i)) = 0"
  by (cases st) (simp add: eval_step_def zero_counter_def Let_def split: prod.splits)

lemma eval_fold_counter:
  "no_meteor_count (fst st) = 0 \<Longrightarrow>
   foldl (eval_step (zero_counter env) a model proc ds) st js =
     foldl (eval_step env a model proc ds) st js \<and>
   no_meteor_count (fst (foldl (eval_step env a model proc ds) st js)) = 0"
proof (induction js arbitrary: st)
  case Nil
  then show ?case by simp
next
  case (Cons j js)
  from Cons.prems have s: "eval_step (zero_counter env) a model proc ds st j =
      eval_step env a model proc ds st j"
    and z: "no_meteor_count (fst (eval_step env a model proc ds st j)) = 0"
    using eval_step_counter [of st env a model proc ds j] by simp_all
  show ?case
    using Cons.IH [OF z] by (simp add: s)
qed

lemma import_loop_counter:
  "no_meteor_count vars = 0 \<Longrightarrow>
   import_loop (zero_counter env) data js vars = import_loop env data js vars \<and>
   (case import_loop env data js vars of Inl e \<Rightarrow> True | Inr vars' \<Rightarrow> no_meteor_count vars' = 0)"
proof (induction js arbitrary: vars)
  case Nil
  then show ?case by simp
next
  case (Cons j js)
  show ?case
  proof (cases "list_getitem data (int j)")
    case (Inl e)
    then show ?thesis by simp
  next
    case (Inr entry)
    show ?thesis
    proof (cases entry)
      case (ModelBasename b)
      with Inr show ?thesis by simp
    next
      case (CaptionRecord fn preds refs)
      let ?v = "vars\<lparr>avg_metrics :=
          compute_captioning_metrics env preds refs (avg_metrics vars) j 0\<rparr>"
      have z: "no_meteor_count ?v = 0"
        using Cons.prems by simp
      have c: "compute_captioning_metrics (zero_counter env) preds refs (avg_metrics vars) j
          (no_meteor_count vars) = compute_captioning_metrics env preds refs (avg_metrics vars) j 0"
        by (simp add: zero_counter_def)
      show ?thesis
        using Cons.IH [OF z] Inr CaptionRecord Cons.prems by simp
    qed
  qed
qed

lemma zero_counter_fields [simp]:
  "get_model_basename (zero_counter env) = get_model_basename env"
  "get_splits_for_evaluation (zero_counter env) = get_splits_for_evaluation env"
  "load_from_checkpoint (zero_counter env) = load_from_checkpoint env"
  "from_pretrained (zero_counter env) = from_pretrained env"
  "seed_everything (zero_counter env) = seed_everything env"
  "format_3f (zero_counter env) = format_3f env"
  by (simp_all add: zero_counter_def)

lemma eval_model_counter:
  "eval_model (zero_counter env) model proc a w = eval_model env model proc a w"
  using eval_fold_counter [of "(\<lparr>avg_metrics = init_metrics (metrics a), no_meteor_count = 0,
      captions = []\<rparr>, seed_everything env (seed a))" env a model proc]
  by (simp add: eval_model_def eval_loop_def)

lemma fresh_evaluation_counter:
  "fresh_evaluation (zero_counter env) a pth w = fresh_evaluation env a pth w"
  by (simp add: fresh_evaluation_def eval_model_counter Let_def case_prod_beta
      split: sum.splits option.splits)

lemma import_evaluation_counter:
  "import_evaluation (zero_counter env) a f w = import_evaluation env a f w"
  using import_loop_counter [of "\<lparr>avg_metrics = init_metrics (metrics a), no_meteor_count = 0\<rparr>" env]
  by (simp add: import_evaluation_def split: sum.splits caption_entry.splits)

text \<open>
  C3. What the code does with the counter of samples without METEOR:
  no\_meteor\_count is set to 0 before each of the two loops and is never assigned
  again, so the value handed to
  the metric function is 0 at every iteration, whatever happened at the iterations
  before. The driver behaves the same when the metric function works with 0 in place of
  the counter it is handed, and the counter is still 0 when either loop ends.
\<close>

theorem no_meteor_count_stays_zero:
  "main (zero_counter env) a w = main env a w \<and>
   no_meteor_count (fst (eval_loop env a model proc ds
     (\<lparr>avg_metrics = init_metrics (metrics a), no_meteor_count = 0, captions = []\<rparr>, r))) = 0 \<and>
   (case import_loop env data js \<lparr>avg_metrics = init_metrics (metrics a), no_meteor_count = 0\<rparr> of
      Inl e \<Rightarrow> True | Inr vars \<Rightarrow> no_meteor_count vars = 0)"
proof (intro conjI)
  show "main (zero_counter env) a w = main env a w"
    by (auto simp: main_def fresh_evaluation_counter import_evaluation_counter
        split: option.splits)
  show "no_meteor_count (fst (eval_loop env a model proc ds
     (\<lparr>avg_metrics = init_metrics (metrics a), no_meteor_count = 0, captions = []\<rparr>, r))) = 0"
    using eval_fold_counter [of "(\<lparr>avg_metrics = init_metrics (metrics a), no_meteor_count = 0,
      captions = []\<rparr>, r)" env a model proc ds "[0..<length ds]"]
    by (simp add: eval_loop_def)
  show "case import_loop env data js \<lparr>avg_metrics = init_metrics (metrics a), no_meteor_count = 0\<rparr> of
      Inl e \<Rightarrow> True | Inr vars \<Rightarrow> no_meteor_count vars = 0"
    using import_loop_counter [of "\<lparr>avg_metrics = init_metrics (metrics a), no_meteor_count = 0\<rparr>"
      env data js] by simp
qed

subsection \<open>The fresh evaluation: which name is written, and the sentinel\<close>

lemma unwrap_args_fields [simp]:
  "export_captions (unwrap_args a) = export_captions a"
  "no_evaluation (unwrap_args a) = no_evaluation a"
  "no_splits (unwrap_args a) = no_splits a"
  "scores_dir (unwrap_args a) = scores_dir a"
  "scores_file (unwrap_args a) = scores_file a"
  "model_basename (unwrap_args a) = model_basename a"
  "processor (unwrap_args a) = processor a"
  "captions_export_file (unwrap_args a) = captions_export_file a"
  "metrics (unwrap_args a) = metrics a"
  "seed (unwrap_args a) = seed a"
  "use_beam_search (unwrap_args a) = use_beam_search a"
  by (simp_all add: unwrap_args_def)

lemma unwrap_args_model_basename:
  "unwrap_args (a\<lparr>model_basename := mb\<rparr>) = (unwrap_args a)\<lparr>model_basename := mb\<rparr>"
  by (simp add: unwrap_args_def)

lemma eval_step_model_basename:
  "eval_step env (a\<lparr>model_basename := mb\<rparr>) = eval_step env a"
  by (intro ext) (simp add: eval_step_def)

lemma eval_model_model_basename:
  "eval_model env model proc (a\<lparr>model_basename := mb\<rparr>) w = eval_model env model proc a w"
  by (simp add: eval_model_def eval_loop_def eval_step_model_basename)

lemma fresh_no_export:
  "\<not> export_captions a \<Longrightarrow>
   fresh_evaluation env a pth w =
     export_metrics (format_3f env)
       (snd (fst (eval_model env (load_from_checkpoint env pth) (from_pretrained env (processor a))
          (unwrap_args a)
          (w\<lparr>events := events w @ [LoadCheckpoint pth, LoadProcessor (processor a)]\<rparr>))))
       (scores_dir a) (scores_file a) (get_model_basename env pth)
       (snd (eval_model env (load_from_checkpoint env pth) (from_pretrained env (processor a))
          (unwrap_args a)
          (w\<lparr>events := events w @ [LoadCheckpoint pth, LoadProcessor (processor a)]\<rparr>)))"
  by (simp add: fresh_evaluation_def Let_def split: prod.splits)

lemma fresh_export:
  "export_captions a \<Longrightarrow>
   fresh_evaluation env a pth w =
     (case list_setitem
             (fst (fst (eval_model env (load_from_checkpoint env pth)
                (from_pretrained env (processor a)) (unwrap_args a)
                (w\<lparr>events := events w @ [LoadCheckpoint pth, LoadProcessor (processor a)]\<rparr>))))
             (int (length (fst (fst (eval_model env (load_from_checkpoint env pth)
                (from_pretrained env (processor a)) (unwrap_args a)
                (w\<lparr>events := events w @ [LoadCheckpoint pth, LoadProcessor (processor a)]\<rparr>))))) - 1)
             (ModelBasename (case model_basename a of
                               Some b \<Rightarrow> b | None \<Rightarrow> get_model_basename env pth)) of
        Inl e \<Rightarrow>
          (Inl e, snd (eval_model env (load_from_checkpoint env pth)
                (from_pretrained env (processor a)) (unwrap_args a)
                (w\<lparr>events := events w @ [LoadCheckpoint pth, LoadProcessor (processor a)]\<rparr>)))
      | Inr caps' \<Rightarrow>
          open_write (snd (eval_model env (load_from_checkpoint env pth)
                (from_pretrained env (processor a)) (unwrap_args a)
                (w\<lparr>events := events w @ [LoadCheckpoint pth, LoadProcessor (processor a)]\<rparr>)))
            (captions_export_file a) ModeW [JsonDoc caps'])"
proof -
  assume x: "export_captions a"
  obtain caps avg w3 where ev:
    "eval_model env (load_from_checkpoint env pth) (from_pretrained env (processor a))
       (unwrap_args a)
       (w\<lparr>events := events w @ [LoadCheckpoint pth, LoadProcessor (processor a)]\<rparr>) =
     ((caps, avg), w3)"
    by (metis prod.exhaust)
  show ?thesis
    using x by (simp add: fresh_evaluation_def Let_def ev split: sum.splits)
qed

lemma main_ignores_model_basename:
  "captions_import_file a = None \<Longrightarrow> \<not> export_captions a \<Longrightarrow>
   main env (a\<lparr>model_basename := mb\<rparr>) w = main env a w"
  by (simp add: main_def fresh_no_export unwrap_args_model_basename eval_model_model_basename
      split: option.splits)


lemma list_setitem_last:
  "list_setitem xs (int (length xs) - 1) v = Inr ys \<Longrightarrow> xs \<noteq> [] \<and> ys = butlast xs @ [v]"
proof (cases xs rule: rev_cases)
  case Nil
  assume "list_setitem xs (int (length xs) - 1) v = Inr ys"
  with Nil show ?thesis by (simp add: list_setitem_def norm_index_def)
next
  case (snoc zs z)
  assume "list_setitem xs (int (length xs) - 1) v = Inr ys"
  with snoc show ?thesis by (simp add: list_setitem_def norm_index_def)
qed

lemma list_setitem_empty: "list_setitem [] i v = Inl IndexError"
  by (simp add: list_setitem_def norm_index_def)

lemma open_write_ok:
  assumes ok: "fst (open_write w p ModeW s) = Inr ()"
  shows "\<exists>k. stat (snd (open_write w p ModeW s)) p = Inr (k, File s)"
proof (cases "lookup w p")
  case (Failed e)
  with ok show ?thesis by (simp add: open_write_def)
next
  case (Missing k sl)
  with ok have "\<not> sl"
    by (auto simp: open_write_def split: if_splits)
  with Missing have l: "lookup w p = Missing k False"
    by simp
  then have "snd (open_write w p ModeW s) = w\<lparr>nodes := (nodes w)(k \<mapsto> File s)\<rparr>"
    by (simp add: open_write_def)
  then show ?thesis
    using stat_after_write [of w p k _ s] l by auto
next
  case (Found k nd sl)
  show ?thesis
  proof (cases nd)
    case Dir
    with Found ok show ?thesis by (simp add: open_write_def)
  next
    case (File old)
    with Found ok have "\<not> sl"
      by (auto simp: open_write_def split: if_splits)
    with Found File have l: "lookup w p = Found k (File old) False"
      by simp
    then have "snd (open_write w p ModeW s) = w\<lparr>nodes := (nodes w)(k \<mapsto> File s)\<rparr>"
      by (simp add: open_write_def)
    then show ?thesis
      using stat_after_write [of w p k old s] l by auto
  qed
qed

lemma main_success_fresh:
  "captions_import_file a = None \<Longrightarrow> model_pth a = Some pth \<Longrightarrow> fst (main env a w) = Inr () \<Longrightarrow>
   main env a w = fresh_evaluation env a pth w"
  by (auto simp: main_def split: if_splits)

text \<open>The definitions that evaluate the driver in the example environment.\<close>

lemmas ex_defs =
  main_def fresh_evaluation_def import_evaluation_def eval_model_def eval_loop_def
  eval_step_def unwrap_args_def list_setitem_def list_getitem_def norm_index_def
  init_metrics_def running_average_def exact_match_def ex_ds_def ex_env_def ex_args_def
  endswith_def fs_defs

lemma ex_override_scored_ok:
  "fst (main ex_env (ex_args\<lparr>model_basename := Some ''override''\<rparr>) ex_world_scored) = Inr ()"
  by (simp add: ex_defs)

lemma ex_override_export_ok:
  "fst (main ex_env (ex_args\<lparr>model_basename := Some ''override'', export_captions := True\<rparr>)
     ex_world) = Inr ()"
  by (simp add: ex_defs)

text \<open>
  C9. In a fresh evaluation without caption export the driver behaves the same whatever
  the model\_basename argument is, and when it succeeds the line it has added to the
  scores file starts with the basename derived from model\_pth. The model\_basename
  argument reaches a file only when captions are exported: the exported list then ends
  with the record that holds it (or the basename of model\_pth when it is None).
\<close>

theorem scores_name_is_model_pth_basename:
  "(captions_import_file a = None \<and> \<not> export_captions a \<longrightarrow>
      main env (a\<lparr>model_basename := mb\<rparr>) w = main env a w) \<and>
   (captions_import_file a = None \<and> \<not> export_captions a \<and> model_pth a = Some pth \<and>
    fst (main env a w) = Inr () \<longrightarrow>
      (\<exists>avg k. stat (snd (main env a w)) (path_join (scores_dir a) (scores_file a)) =
         Inr (k, File (content_at w k @
           text_of (get_model_basename env pth @ [TAB] @ metrics_str (format_3f env) avg @ [NL]))))) \<and>
   (captions_import_file a = None \<and> export_captions a \<and> model_pth a = Some pth \<and>
    fst (main env a w) = Inr () \<longrightarrow>
      (\<exists>d k. stat (snd (main env a w)) (captions_export_file a) =
              Inr (k, File [JsonDoc (d @ [ModelBasename
                (case model_basename a of Some b \<Rightarrow> b | None \<Rightarrow> get_model_basename env pth)])])))"
proof (intro conjI impI)
  assume "captions_import_file a = None \<and> \<not> export_captions a"
  then show "main env (a\<lparr>model_basename := mb\<rparr>) w = main env a w"
    by (simp add: main_ignores_model_basename)
next
  assume h: "captions_import_file a = None \<and> \<not> export_captions a \<and> model_pth a = Some pth \<and>
    fst (main env a w) = Inr ()"
  let ?w0 = "w\<lparr>events := events w @ [LoadCheckpoint pth, LoadProcessor (processor a)]\<rparr>"
  let ?ev = "eval_model env (load_from_checkpoint env pth) (from_pretrained env (processor a))
          (unwrap_args a) ?w0"
  let ?p = "path_join (scores_dir a) (scores_file a)"
  have m: "main env a w =
      export_metrics (format_3f env) (snd (fst ?ev)) (scores_dir a) (scores_file a)
        (get_model_basename env pth) (snd ?ev)"
  proof -
    have "main env a w = fresh_evaluation env a pth w"
      using h main_success_fresh by blast
    also have "\<dots> = export_metrics (format_3f env) (snd (fst ?ev)) (scores_dir a) (scores_file a)
        (get_model_basename env pth) (snd ?ev)"
      using h by (simp add: fresh_no_export)
    finally show ?thesis .
  qed
  have "fst (export_metrics (format_3f env) (snd (fst ?ev)) (scores_dir a) (scores_file a)
      (get_model_basename env pth) (snd ?ev)) = Inr ()"
    using h m by metis
  then obtain k where "stat (snd (main env a w)) ?p =
      Inr (k, File (content_at (snd ?ev) k @
        text_of (scores_line (format_3f env) (snd (fst ?ev)) (get_model_basename env pth))))"
    unfolding m using export_metrics_success by blast
  moreover have "content_at (snd ?ev) k = content_at w k"
    by (simp add: content_at_def eval_model_nodes)
  ultimately show "\<exists>avg k. stat (snd (main env a w)) ?p =
         Inr (k, File (content_at w k @
           text_of (get_model_basename env pth @ [TAB] @ metrics_str (format_3f env) avg @ [NL])))"
    by (auto simp: scores_line_def)
next
  assume h: "captions_import_file a = None \<and> export_captions a \<and> model_pth a = Some pth \<and>
    fst (main env a w) = Inr ()"
  let ?b = "case model_basename a of Some b \<Rightarrow> b | None \<Rightarrow> get_model_basename env pth"
  let ?w0 = "w\<lparr>events := events w @ [LoadCheckpoint pth, LoadProcessor (processor a)]\<rparr>"
  let ?ev = "eval_model env (load_from_checkpoint env pth) (from_pretrained env (processor a))
          (unwrap_args a) ?w0"
  let ?caps = "fst (fst ?ev)"
  have m: "main env a w =
      (case list_setitem ?caps (int (length ?caps) - 1) (ModelBasename ?b) of
         Inl e \<Rightarrow> (Inl e, snd ?ev)
       | Inr caps' \<Rightarrow> open_write (snd ?ev) (captions_export_file a) ModeW [JsonDoc caps'])"
  proof -
    have "main env a w = fresh_evaluation env a pth w"
      using h main_success_fresh by blast
    also have "\<dots> = (case list_setitem ?caps (int (length ?caps) - 1) (ModelBasename ?b) of
         Inl e \<Rightarrow> (Inl e, snd ?ev)
       | Inr caps' \<Rightarrow> open_write (snd ?ev) (captions_export_file a) ModeW [JsonDoc caps'])"
      using h by (simp add: fresh_export)
    finally show ?thesis .
  qed
  define caps where "caps = ?caps"
  define w3 where "w3 = snd ?ev"
  define x where "x = ModelBasename ?b"
  define f where "f = captions_export_file a"
  have m': "main env a w =
      (case list_setitem caps (int (length caps) - 1) x of
         Inl e \<Rightarrow> (Inl e, w3)
       | Inr caps' \<Rightarrow> open_write w3 f ModeW [JsonDoc caps'])"
    using m by (simp only: caps_def w3_def x_def f_def)
  have ok: "fst (main env a w) = Inr ()"
    using h by blast
  have "\<exists>d k. stat (snd (main env a w)) f = Inr (k, File [JsonDoc (d @ [x])])"
  proof (cases "list_setitem caps (int (length caps) - 1) x")
    case (Inl e)
    then have "fst (main env a w) = Inl e"
      by (simp add: m')
    with ok show ?thesis by simp
  next
    case (Inr caps')
    then have c: "caps' = butlast caps @ [x]"
      using list_setitem_last [of caps x caps'] by simp
    have e: "main env a w = open_write w3 f ModeW [JsonDoc caps']"
      using Inr by (simp add: m')
    then have "fst (open_write w3 f ModeW [JsonDoc caps']) = Inr ()"
      using ok by simp
    then obtain k where
      "stat (snd (open_write w3 f ModeW [JsonDoc caps'])) f = Inr (k, File [JsonDoc caps'])"
      using open_write_ok by blast
    then have "stat (snd (main env a w)) f = Inr (k, File [JsonDoc (butlast caps @ [x])])"
      using e c by simp
    then show ?thesis by blast
  qed
  then show "\<exists>d k. stat (snd (main env a w)) (captions_export_file a) =
              Inr (k, File [JsonDoc (d @ [ModelBasename ?b])])"
    by (simp only: x_def f_def)
qed

theorem scores_name_is_model_pth_basename_witness:
  "captions_import_file (ex_args\<lparr>model_basename := Some ''override''\<rparr>) = None \<and>
   \<not> export_captions (ex_args\<lparr>model_basename := Some ''override''\<rparr>) \<and>
   model_pth (ex_args\<lparr>model_basename := Some ''override''\<rparr>) = Some ''ckpt.pt'' \<and>
   fst (main ex_env (ex_args\<lparr>model_basename := Some ''override''\<rparr>) ex_world_scored) = Inr () \<and>
   main ex_env (ex_args\<lparr>model_basename := Some ''override''\<rparr>\<lparr>model_basename := None\<rparr>)
       ex_world_scored =
     main ex_env (ex_args\<lparr>model_basename := Some ''override''\<rparr>) ex_world_scored \<and>
   (\<exists>avg k. stat (snd (main ex_env (ex_args\<lparr>model_basename := Some ''override''\<rparr>)
                ex_world_scored)) ''eval_results/clip_cap_scores.tsv'' =
      Inr (k, File (content_at ex_world_scored k @
        text_of (''ckpt'' @ [TAB] @ metrics_str ex_format avg @ [NL])))) \<and>
   export_captions (ex_args\<lparr>model_basename := Some ''override'', export_captions := True\<rparr>) \<and>
   fst (main ex_env (ex_args\<lparr>model_basename := Some ''override'', export_captions := True\<rparr>)
     ex_world) = Inr () \<and>
   (\<exists>d k. stat (snd (main ex_env
            (ex_args\<lparr>model_basename := Some ''override'', export_captions := True\<rparr>) ex_world))
          ''exported_captions.json'' =
      Inr (k, File [JsonDoc (d @ [ModelBasename ''override''])]))"
proof -
  let ?A = "ex_args\<lparr>model_basename := Some ''override''\<rparr>"
  let ?B = "ex_args\<lparr>model_basename := Some ''override'', export_captions := True\<rparr>"
  have a: "captions_import_file ?A = None" "\<not> export_captions ?A" "model_pth ?A = Some ''ckpt.pt''"
    by (simp_all add: ex_args_def)
  have b: "captions_import_file ?B = None" "export_captions ?B" "model_pth ?B = Some ''ckpt.pt''"
    by (simp_all add: ex_args_def)
  have p: "path_join (scores_dir ?A) (scores_file ?A) = ''eval_results/clip_cap_scores.tsv''"
    by (simp add: ex_args_def path_join_def)
  have g: "get_model_basename ex_env ''ckpt.pt'' = ''ckpt''" "format_3f ex_env = ex_format"
    by (simp_all add: ex_env_def)
  note t1 = scores_name_is_model_pth_basename [of ?A ex_env None ex_world_scored "''ckpt.pt''"]
  note t2 = scores_name_is_model_pth_basename [of ?B ex_env None ex_world "''ckpt.pt''"]
  have c1: "main ex_env (?A\<lparr>model_basename := None\<rparr>) ex_world_scored =
      main ex_env ?A ex_world_scored"
    using t1 a by blast
  have c2: "\<exists>avg k. stat (snd (main ex_env ?A ex_world_scored))
        ''eval_results/clip_cap_scores.tsv'' =
      Inr (k, File (content_at ex_world_scored k @
        text_of (''ckpt'' @ [TAB] @ metrics_str ex_format avg @ [NL])))"
    using t1 a ex_override_scored_ok unfolding p g by simp
  have c3: "\<exists>d k. stat (snd (main ex_env ?B ex_world)) ''exported_captions.json'' =
      Inr (k, File [JsonDoc (d @ [ModelBasename ''override''])])"
    using t2 b ex_override_export_ok by (simp add: ex_args_def)
  show ?thesis
    using a b ex_override_scored_ok ex_override_export_ok c1 c2 c3 by blast
qed

text \<open>
  C10. When the arguments pass the checks, captions are to be exported and the dataset
  is empty, the driver ends with IndexError (line 127 assigns to index -1 of an empty
  list). The checkpoint and the processor have been loaded by then, and no file has
  been written.
\<close>

theorem empty_dataset_export_index_error:
  "captions_import_file a = None \<Longrightarrow> model_pth a = Some pth \<Longrightarrow> export_captions a \<Longrightarrow>
   endswith (captions_export_file a) ''.json'' \<Longrightarrow>
   no_splits a \<or> py_len (splits a) = py_len (annotations_files a) \<Longrightarrow>
   get_splits_for_evaluation env (annotations_files (unwrap_args a)) (img_dirs (unwrap_args a))
     (splits (unwrap_args a)) (\<not> no_splits a) = [] \<Longrightarrow>
   fst (main env a w) = Inl IndexError \<and> nodes (snd (main env a w)) = nodes w \<and>
   events (snd (main env a w)) = events w @ [LoadCheckpoint pth, LoadProcessor (processor a)]"
proof -
  assume h: "captions_import_file a = None" "model_pth a = Some pth" "export_captions a"
    "endswith (captions_export_file a) ''.json''"
    "no_splits a \<or> py_len (splits a) = py_len (annotations_files a)"
    and ds: "get_splits_for_evaluation env (annotations_files (unwrap_args a))
      (img_dirs (unwrap_args a)) (splits (unwrap_args a)) (\<not> no_splits a) = []"
  have len: "length (captions_export_file a) \<noteq> 0"
    using h(4) by (auto simp: endswith_def)
  have m: "main env a w = fresh_evaluation env a pth w"
    using h len by (auto simp: main_def)
  show ?thesis
    unfolding m using h(3) ds
    by (simp add: fresh_evaluation_def eval_model_def eval_loop_def Let_def list_setitem_empty)
qed

theorem empty_dataset_export_index_error_witness:
  "captions_import_file (ex_args\<lparr>export_captions := True\<rparr>) = None \<and>
   model_pth (ex_args\<lparr>export_captions := True\<rparr>) = Some ''ckpt.pt'' \<and>
   export_captions (ex_args\<lparr>export_captions := True\<rparr>) \<and>
   endswith (captions_export_file (ex_args\<lparr>export_captions := True\<rparr>)) ''.json'' \<and>
   py_len (splits (ex_args\<lparr>export_captions := True\<rparr>)) =
     py_len (annotations_files (ex_args\<lparr>export_captions := True\<rparr>)) \<and>
   fst (main (ex_env\<lparr>get_splits_for_evaluation := (\<lambda>anns dirs spl use_splits. [])\<rparr>)
          (ex_args\<lparr>export_captions := True\<rparr>) ex_world) = Inl IndexError \<and>
   nodes (snd (main (ex_env\<lparr>get_splits_for_evaluation := (\<lambda>anns dirs spl use_splits. [])\<rparr>)
          (ex_args\<lparr>export_captions := True\<rparr>) ex_world)) = nodes ex_world"
  using empty_dataset_export_index_error
    [of "ex_args\<lparr>export_captions := True\<rparr>" "''ckpt.pt''"
        "ex_env\<lparr>get_splits_for_evaluation := (\<lambda>anns dirs spl use_splits. [])\<rparr>" ex_world]
  by (simp add: ex_args_def ex_world_def ex_env_def endswith_def)

subsection \<open>The exported caption list\<close>

lemma eval_step_captions:
  "export_captions a \<Longrightarrow>
   length (captions (fst (eval_step env a model proc ds st i))) = Suc (length (captions (fst st)))"
  by (cases st) (simp add: eval_step_def Let_def split: prod.splits)

lemma eval_fold_captions:
  "export_captions a \<Longrightarrow>
   length (captions (fst (foldl (eval_step env a model proc ds) st js))) =
     length (captions (fst st)) + length js"
proof (induction js arbitrary: st)
  case Nil
  then show ?case by simp
next
  case (Cons j js)
  show ?case
    using Cons.IH [OF Cons.prems, of "eval_step env a model proc ds st j"]
      eval_step_captions [OF Cons.prems, of env model proc ds st j]
    by simp
qed

lemma eval_model_captions:
  "export_captions a \<Longrightarrow>
   length (fst (fst (eval_model env model proc a w))) =
     length (get_splits_for_evaluation env (annotations_files a) (img_dirs a) (splits a)
       (\<not> no_splits a))"
  using eval_fold_captions [of a env model proc
      "get_splits_for_evaluation env (annotations_files a) (img_dirs a) (splits a) (\<not> no_splits a)"
      "(\<lparr>avg_metrics = init_metrics (metrics a), no_meteor_count = 0, captions = []\<rparr>,
        seed_everything env (seed a))"]
  by (simp add: eval_model_def eval_loop_def Let_def case_prod_beta)

text \<open>The export run on the two samples of the example.\<close>

lemma ex_export_run:
  "length ex_ds = 2 \<and>
   main ex_env (ex_args\<lparr>export_captions := True\<rparr>) ex_world =
     (Inr (),
      \<lparr>nodes = [[''work''] \<mapsto> Dir,
         [''work'', ''exported_captions.json''] \<mapsto>
           File [JsonDoc [CaptionRecord ''a.jpg'' [''a plane''] [''a plane''],
                          ModelBasename ''ckpt'']]],
       cwd = [''work''], rng = 44,
       events = [LoadCheckpoint ''ckpt.pt'', LoadProcessor ''openai/clip-vit-base-patch32'']\<rparr>)"
  by (simp add: ex_defs)

text \<open>
  C1. What the code writes when captions are exported: whenever the run succeeds, the
  file holds a list of exactly as many entries as the dataset has samples, the last one
  being the record that holds the model basename. Line 127 assigns the sentinel to the
  last index of the list instead of appending it, so the record of the last sample is
  overwritten: on two samples the file holds the record of the first sample and the
  sentinel.
\<close>

theorem exported_list_has_one_entry_per_sample:
  "captions_import_file a = None \<Longrightarrow> export_captions a \<Longrightarrow> model_pth a = Some pth \<Longrightarrow>
   fst (main env a w) = Inr () \<Longrightarrow>
   \<exists>d k. stat (snd (main env a w)) (captions_export_file a) =
          Inr (k, File [JsonDoc (d @ [ModelBasename
            (case model_basename a of Some b \<Rightarrow> b | None \<Rightarrow> get_model_basename env pth)])]) \<and>
        Suc (length d) =
          length (get_splits_for_evaluation env (annotations_files (unwrap_args a))
            (img_dirs (unwrap_args a)) (splits (unwrap_args a)) (\<not> no_splits a))"
proof -
  assume h: "captions_import_file a = None" "export_captions a" "model_pth a = Some pth"
    and ok: "fst (main env a w) = Inr ()"
  let ?ev = "eval_model env (load_from_checkpoint env pth) (from_pretrained env (processor a))
      (unwrap_args a)
      (w\<lparr>events := events w @ [LoadCheckpoint pth, LoadProcessor (processor a)]\<rparr>)"
  define caps where "caps = fst (fst ?ev)"
  define w3 where "w3 = snd ?ev"
  define x where "x = ModelBasename
    (case model_basename a of Some b \<Rightarrow> b | None \<Rightarrow> get_model_basename env pth)"
  define f where "f = captions_export_file a"
  define n where "n = length (get_splits_for_evaluation env (annotations_files (unwrap_args a))
            (img_dirs (unwrap_args a)) (splits (unwrap_args a)) (\<not> no_splits a))"
  have len: "length caps = n"
    using eval_model_captions [of "unwrap_args a" env] h(2) by (simp add: caps_def n_def)
  have "main env a w = fresh_evaluation env a pth w"
    using ok by (rule main_success_fresh [OF h(1) h(3)])
  then have m: "main env a w =
      (case list_setitem caps (int (length caps) - 1) x of
         Inl e \<Rightarrow> (Inl e, w3)
       | Inr caps' \<Rightarrow> open_write w3 f ModeW [JsonDoc caps'])"
    using h(2) by (simp only: fresh_export caps_def w3_def x_def f_def)
  have "\<exists>d k. stat (snd (main env a w)) f = Inr (k, File [JsonDoc (d @ [x])]) \<and>
      Suc (length d) = n"
  proof (cases "list_setitem caps (int (length caps) - 1) x")
    case (Inl e)
    then have "fst (main env a w) = Inl e"
      by (simp add: m)
    with ok show ?thesis by simp
  next
    case (Inr caps')
    then have c: "caps \<noteq> []" "caps' = butlast caps @ [x]"
      using list_setitem_last [of caps x caps'] by simp_all
    have e: "main env a w = open_write w3 f ModeW [JsonDoc caps']"
      using Inr by (simp add: m)
    then have "fst (open_write w3 f ModeW [JsonDoc caps']) = Inr ()"
      using ok by simp
    then obtain k where
      "stat (snd (open_write w3 f ModeW [JsonDoc caps'])) f = Inr (k, File [JsonDoc caps'])"
      using open_write_ok by blast
    then have "stat (snd (main env a w)) f = Inr (k, File [JsonDoc (butlast caps @ [x])])"
      using e c by simp
    moreover have "Suc (length (butlast caps)) = n"
    proof -
      have "0 < length caps" using c(1) by simp
      then show ?thesis using len by simp
    qed
    ultimately show ?thesis by blast
  qed
  then show ?thesis
    by (simp only: x_def f_def n_def)
qed

theorem exported_list_has_one_entry_per_sample_witness:
  "captions_import_file (ex_args\<lparr>export_captions := True\<rparr>) = None \<and>
   export_captions (ex_args\<lparr>export_captions := True\<rparr>) \<and>
   model_pth (ex_args\<lparr>export_captions := True\<rparr>) = Some ''ckpt.pt'' \<and>
   fst (main ex_env (ex_args\<lparr>export_captions := True\<rparr>) ex_world) = Inr () \<and>
   length ex_ds = 2 \<and>
   open_read (snd (main ex_env (ex_args\<lparr>export_captions := True\<rparr>) ex_world))
       ''exported_captions.json'' =
     Inr [JsonDoc [CaptionRecord ''a.jpg'' [''a plane''] [''a plane''],
                   ModelBasename ''ckpt'']] \<and>
   (\<exists>d k. stat (snd (main ex_env (ex_args\<lparr>export_captions := True\<rparr>) ex_world))
          ''exported_captions.json'' =
        Inr (k, File [JsonDoc (d @ [ModelBasename ''ckpt''])]) \<and>
      Suc (length d) = length ex_ds)"
proof -
  let ?B = "ex_args\<lparr>export_captions := True\<rparr>"
  have b: "captions_import_file ?B = None" "export_captions ?B" "model_pth ?B = Some ''ckpt.pt''"
    by (simp_all add: ex_args_def)
  have ok: "fst (main ex_env ?B ex_world) = Inr ()"
    by (simp add: ex_export_run)
  have n: "length ex_ds = 2"
    by (simp add: ex_export_run)
  have f: "open_read (snd (main ex_env ?B ex_world)) ''exported_captions.json'' =
     Inr [JsonDoc [CaptionRecord ''a.jpg'' [''a plane''] [''a plane''],
                   ModelBasename ''ckpt'']]"
    by (simp add: ex_export_run) (simp add: fs_defs)
  have "\<exists>d k. stat (snd (main ex_env ?B ex_world)) ''exported_captions.json'' =
        Inr (k, File [JsonDoc (d @ [ModelBasename ''ckpt''])]) \<and>
      Suc (length d) = length ex_ds"
    using exported_list_has_one_entry_per_sample [OF b(1) b(2) b(3) ok]
    by (simp add: ex_args_def ex_env_def)
  with b ok n f show ?thesis by blast
qed

text \<open>
  C2. On the same two samples, with a running average of an exact-match score as the
  metric: direct evaluation averages over both samples (1/2, written as 0.500), while
  the exported file holds the first sample only, so the import loop averages over one
  sample (1, written as 1.000). Exporting and importing does not give the metrics of
  direct evaluation.
\<close>

theorem roundtrip_metrics_differ:
  "snd (fst (eval_model ex_env ''ckpt.pt'' ''openai/clip-vit-base-patch32''
        (unwrap_args ex_args) ex_world)) = [(''BLEU1'', 1 / 2)] \<and>
   open_read (snd (main ex_env ex_args ex_world)) ''eval_results/clip_cap_scores.tsv'' =
     Inr (text_of (''ckpt'' @ [TAB] @ ''BLEU1'' @ [TAB] @ ''0.500'' @ [TAB] @ [NL])) \<and>
   load_json (snd (main ex_env (ex_args\<lparr>export_captions := True\<rparr>) ex_world))
       ''exported_captions.json'' =
     Inr [CaptionRecord ''a.jpg'' [''a plane''] [''a plane''], ModelBasename ''ckpt''] \<and>
   import_loop ex_env [CaptionRecord ''a.jpg'' [''a plane''] [''a plane''], ModelBasename ''ckpt'']
       [0..<1] \<lparr>avg_metrics = init_metrics [''BLEU1''], no_meteor_count = 0\<rparr> =
     Inr \<lparr>avg_metrics = [(''BLEU1'', 1)], no_meteor_count = 0\<rparr> \<and>
   open_read (snd (main ex_env (ex_args\<lparr>captions_import_file := Some ''exported_captions.json''\<rparr>)
            (snd (main ex_env (ex_args\<lparr>export_captions := True\<rparr>) ex_world))))
       ''eval_results/clip_cap_scores.tsv'' =
     Inr (text_of (''ckpt'' @ [TAB] @ ''BLEU1'' @ [TAB] @ ''1.000'' @ [TAB] @ [NL]))"
  by (simp add: ex_defs)

end
